theory Spec2Isabelle
  imports Main "HOL-Library.AList" "HOL-Library.Sublist"
begin

section \<open>JavaScript values\<close>

text \<open>
  The strategy (lib/strategy.js) handles untyped JavaScript data: option objects, parsed
  JSON, token-exchange parameters. A value is one of the JSON shapes or \<open>undefined\<close>.
  Numbers are integers: the code never calculates with a number, it only tests it for
  truth, compares it and renders it in a string. An object is the list of its own
  properties in insertion order; of two entries with one key the first is the property.
\<close>

datatype jsval =
    JUndefined
  | JNull
  | JBool bool
  | JNum int
  | JStr string
  | JArr "jsval list"
  | JObj "(string \<times> jsval) list"

type_synonym jsobj = "(string \<times> jsval) list"

text \<open>Truthiness, as \<open>if (v)\<close>, \<open>v || d\<close> and \<open>v && w\<close> test it.\<close>

fun truthy :: "jsval \<Rightarrow> bool" where
  "truthy JUndefined = False"
| "truthy JNull = False"
| "truthy (JBool b) = b"
| "truthy (JNum n) = (n \<noteq> 0)"
| "truthy (JStr s) = (s \<noteq> [])"
| "truthy (JArr xs) = True"
| "truthy (JObj kvs) = True"

text \<open>\<open>a || d\<close>.\<close>

definition or_else :: "jsval \<Rightarrow> jsval \<Rightarrow> jsval" where
  "or_else a d = (if truthy a then a else d)"

text \<open>\<open>typeof v\<close>.\<close>

fun typeof :: "jsval \<Rightarrow> string" where
  "typeof JUndefined = ''undefined''"
| "typeof JNull = ''object''"
| "typeof (JBool b) = ''boolean''"
| "typeof (JNum n) = ''number''"
| "typeof (JStr s) = ''string''"
| "typeof (JArr xs) = ''object''"
| "typeof (JObj kvs) = ''object''"

text \<open>
  Modelled from the spec: the error classes \<open>VkontakteAPIError\<close> and
  \<open>VkontakteTokenError\<close> of ./errors, which strategy.js imports and which are not among
  the sources. The specification (7) has each carry the provider's message and numeric
  code and be a type of its own; each is a constructor here, holding the two arguments
  the code passes to \<open>new\<close>.

  The other constructors are the errors of the language and of passport-oauth2:
  \<open>SyntaxError\<close> is what \<open>JSON.parse\<close> throws, \<open>TypeError\<close> what reading a property
  of \<open>undefined\<close> or \<open>null\<close> throws (and calling a method a value does not have);
  \<open>Error\<close> and \<open>InternalOAuthError\<close> hold the arguments of their constructors.
\<close>

datatype error =
    SyntaxError
  | TypeError
  | Error string
  | InternalOAuthError string jsval
  | VkontakteAPIError jsval jsval
  | VkontakteTokenError jsval jsval

text \<open>
  \<open>o.k\<close> on the own property list of an object: \<open>undefined\<close> when the key is absent.
\<close>

definition lookup :: "jsobj \<Rightarrow> string \<Rightarrow> jsval" where
  "lookup kvs k = (case map_of kvs k of None \<Rightarrow> JUndefined | Some v \<Rightarrow> v)"

text \<open>
  \<open>v.k\<close> on any value, for the property names the code reads (none of them a built-in
  property such as \<open>length\<close>): a TypeError on \<open>undefined\<close> and \<open>null\<close>, the own
  property of an object, \<open>undefined\<close> on every other value.
\<close>

fun get_prop :: "jsval \<Rightarrow> string \<Rightarrow> error + jsval" where
  "get_prop JUndefined k = Inl TypeError"
| "get_prop JNull k = Inl TypeError"
| "get_prop (JObj kvs) k = Inr (lookup kvs k)"
| "get_prop v k = Inr JUndefined"

text \<open>
  Decimal rendering of an integer (JavaScript prints integers of magnitude below
  \<open>10^21\<close> so), and \<open>String(v)\<close> as string concatenation and
  \<open>Array.prototype.join\<close> apply it.
\<close>

fun show_nat :: "nat \<Rightarrow> string" where
  "show_nat n =
     (if n < 10 then [''0123456789'' ! n]
      else show_nat (n div 10) @ [''0123456789'' ! (n mod 10)])"

definition show_int :: "int \<Rightarrow> string" where
  "show_int i = (if i < 0 then CHR ''-'' # show_nat (nat (- i)) else show_nat (nat i))"

fun join :: "string \<Rightarrow> string list \<Rightarrow> string" where
  "join sep [] = []"
| "join sep [x] = x"
| "join sep (x # y # ys) = x @ sep @ join sep (y # ys)"

fun ToString :: "jsval \<Rightarrow> string" where
  "ToString JUndefined = ''undefined''"
| "ToString JNull = ''null''"
| "ToString (JBool b) = (if b then ''true'' else ''false'')"
| "ToString (JNum n) = show_int n"
| "ToString (JStr s) = s"
| "ToString (JArr xs) =
     join '','' (map (\<lambda>x. if x = JUndefined \<or> x = JNull then [] else ToString x) xs)"
| "ToString (JObj kvs) = ''[object Object]''"

text \<open>\<open>xs.join(sep)\<close>: \<open>undefined\<close> and \<open>null\<close> elements render as the empty string.\<close>

definition array_join :: "string \<Rightarrow> jsval list \<Rightarrow> string" where
  "array_join sep xs =
     join sep (map (\<lambda>x. if x = JUndefined \<or> x = JNull then [] else ToString x) xs)"

text \<open>\<open>v[i]\<close> for an index \<open>i\<close>: an array element, a one-character string, the
  property named by the index on an object.\<close>

fun get_index :: "jsval \<Rightarrow> nat \<Rightarrow> error + jsval" where
  "get_index JUndefined i = Inl TypeError"
| "get_index JNull i = Inl TypeError"
| "get_index (JArr xs) i = Inr (if i < length xs then xs ! i else JUndefined)"
| "get_index (JStr s) i = Inr (if i < length s then JStr [s ! i] else JUndefined)"
| "get_index (JObj kvs) i = Inr (lookup kvs (show_nat i))"
| "get_index v i = Inr JUndefined"

section \<open>Function values\<close>

text \<open>
  A function value is either a function of the application, known by an identity and
  its declared parameter count (\<open>f.length\<close>), or the closure \<open>passportVerify\<close> that
  \<open>verifyWrapper(options, verify)\<close> returns, which holds the two arguments.
\<close>

datatype fn =
    AppFn nat nat
  | PassportVerify jsobj fn

fun fn_length :: "fn \<Rightarrow> nat" where
  "fn_length (AppFn i n) = n"
| "fn_length (PassportVerify options verify) = 6"

section \<open>The constructor\<close>

text \<open>
  The state \<open>Strategy(options, verify)\<close> leaves in \<open>this\<close>: the fields the constructor
  assigns (\<open>_profileURL\<close>, \<open>_profileFields\<close> and \<open>_apiVersion\<close> without the underscore),
  and the two arguments \<open>OAuth2Strategy.call(this, options, verify)\<close> hands to the OAuth2
  client: the options object as it is at that call, and the verify callback.
\<close>

record strategy =
  lang :: jsval
  photoSize :: jsval
  name :: string
  profileURL :: jsval
  profileFields :: jsval
  apiVersion :: jsval
  oauth2_options :: jsobj
  oauth2_verify :: fn

text \<open>
  \<open>options\<close> is \<open>None\<close> when the caller gives none (\<open>options || {}\<close>), an object
  otherwise. Assignments update the caller's object in place; \<open>delete\<close> removes the key.
  The constructor of \<open>OAuth2Strategy\<close> belongs to passport-oauth2; the state is the one
  reached when it returns, and it leaves \<open>options\<close> as it finds them.
\<close>

definition Strategy :: "jsobj option \<Rightarrow> fn \<Rightarrow> strategy" where
  "Strategy options verify =
     (let o0 = (case options of None \<Rightarrow> [] | Some kvs \<Rightarrow> kvs);
          o1 = AList.update ''authorizationURL''
                 (or_else (lookup o0 ''authorizationURL'') (JStr ''https://oauth.vk.com/authorize'')) o0;
          o2 = AList.update ''tokenURL''
                 (or_else (lookup o1 ''tokenURL'') (JStr ''https://oauth.vk.com/access_token'')) o1;
          o3 = AList.update ''scopeSeparator''
                 (or_else (lookup o2 ''scopeSeparator'') (JStr '','')) o2;
          o4 = AList.update ''passReqToCallback'' (JBool True) o3;
          this_lang = or_else (lookup o4 ''lang'') (JStr ''en'');
          this_photoSize = or_else (lookup o4 ''photoSize'') (JNum 200);
          o5 = AList.delete ''lang'' o4;
          o6 = AList.delete ''photoSize'' o5
      in \<lparr> lang = this_lang,
           photoSize = this_photoSize,
           name = ''vkontakte'',
           profileURL = or_else (lookup o6 ''profileURL'') (JStr ''https://api.vk.com/method/users.get''),
           profileFields = or_else (lookup o6 ''profileFields'') (JArr []),
           apiVersion = or_else (lookup o6 ''apiVersion'') (JStr ''5.110''),
           oauth2_options = o6,
           oauth2_verify = verify \<rparr>)"

section \<open>The verify wrapper\<close>

text \<open>
  \<open>verifyWrapper(options, verify)\<close> returns the closure \<open>passportVerify\<close>.
\<close>

definition verifyWrapper :: "jsobj \<Rightarrow> fn \<Rightarrow> fn" where
  "verifyWrapper options verify = PassportVerify options verify"

text \<open>
  An argument of a call is a JavaScript value, the request object or a completion
  callback; the last two are opaque to the strategy.
\<close>

datatype ('r, 'd) arg = Req 'r | Val jsval | Fun 'd

text \<open>
  What running a function body does: it calls a function with an argument list, it
  reports an error through \<open>this.error\<close>, or it throws.
\<close>

datatype ('r, 'd) effect =
    Call fn "('r, 'd) arg list"
  | StrategyError error
  | Throws error

text \<open>
  The body of \<open>passportVerify\<close>, for the \<open>verify\<close> its closure holds. \<open>profile\<close> is
  the profile object; \<open>profile.emails = [{value: params.email}]\<close> updates it in place,
  so the object passed on is the updated one. \<open>params && params.email\<close> reads the
  property only of a truthy \<open>params\<close>.
\<close>

definition email_claim :: "jsval \<Rightarrow> error + jsval" where
  "email_claim params = (if truthy params then get_prop params ''email'' else Inr params)"

definition passportVerify ::
  "fn \<Rightarrow> 'r \<Rightarrow> jsval \<Rightarrow> jsval \<Rightarrow> jsval \<Rightarrow> jsobj \<Rightarrow> 'd \<Rightarrow> ('r, 'd) effect" where
  "passportVerify verify req accessToken refreshToken params profile verified =
     (case email_claim params of
        Inl e \<Rightarrow> Throws e
      | Inr email \<Rightarrow>
          (let profile' =
                 (if truthy email
                  then AList.update ''emails'' (JArr [JObj [(''value'', email)]]) profile
                  else profile);
               arity = fn_length verify
           in if arity = 6 then
                Call verify [Req req, Val accessToken, Val refreshToken, Val params,
                             Val (JObj profile'), Fun verified]
              else if arity = 5 then
                Call verify [Val accessToken, Val refreshToken, Val params,
                             Val (JObj profile'), Fun verified]
              else if arity = 4 then
                Call verify [Val accessToken, Val refreshToken, Val (JObj profile'), Fun verified]
              else
                StrategyError
                  (Error ''VKontakteStrategy: verify callback must take 4 or 5 parameters'')))"

text \<open>
  Calling a function value. A function of the application receives the arguments as
  they are. The closure runs \<open>passportVerify\<close> on its six parameters; the model covers
  the call the closure is written for (request, two tokens, params, a profile object,
  callback) and gives \<open>None\<close> for any other argument list.
\<close>

fun invoke :: "fn \<Rightarrow> ('r, 'd) arg list \<Rightarrow> ('r, 'd) effect option" where
  "invoke (AppFn i n) args = Some (Call (AppFn i n) args)"
| "invoke (PassportVerify options verify)
      [Req req, Val accessToken, Val refreshToken, Val params, Val (JObj profile), Fun verified] =
     Some (passportVerify verify req accessToken refreshToken params profile verified)"
| "invoke (PassportVerify options verify) args = None"

section \<open>The profile request\<close>

text \<open>
  The \<open>fields\<close> array of \<open>userProfile\<close> (\<open>flds\<close> here): six required names, then
  every element of \<open>_profileFields\<close> that \<open>fields.indexOf\<close> does not find yet.
  \<open>indexOf\<close> compares with \<open>===\<close>, which on strings, numbers, booleans, \<open>null\<close>
  and \<open>undefined\<close> is equality of values.
\<close>

definition required_fields :: "strategy \<Rightarrow> jsval list" where
  "required_fields s =
     [JStr ''uid'', JStr ''first_name'', JStr ''last_name'', JStr ''screen_name'', JStr ''sex'',
      JStr (''photo_'' @ ToString (photoSize s))]"

fun push_missing :: "jsval list \<Rightarrow> jsval list \<Rightarrow> jsval list" where
  "push_missing flds [] = flds"
| "push_missing flds (f # fs) =
     push_missing (if f \<in> set flds then flds else flds @ [f]) fs"

text \<open>\<open>forEach\<close> exists on arrays only: on any other value the call throws.\<close>

definition userProfile_fields :: "strategy \<Rightarrow> error + jsval list" where
  "userProfile_fields s =
     (case profileFields s of
        JArr fs \<Rightarrow> Inr (push_missing (required_fields s) fs)
      | _ \<Rightarrow> Inl TypeError)"

definition userProfile_url :: "strategy \<Rightarrow> error + string" where
  "userProfile_url s =
     (case userProfile_fields s of
        Inl e \<Rightarrow> Inl e
      | Inr flds \<Rightarrow>
          (let url = ToString (profileURL s) @ ''?fields='' @ array_join '','' flds
                       @ ''&v='' @ ToString (apiVersion s) @ ''&https=1''
           in Inr (if truthy (lang s) then url @ ''&lang='' @ ToString (lang s) else url)))"

section \<open>The profile response\<close>

text \<open>
  One call of \<open>done\<close>: its error argument (\<open>None\<close> for \<open>null\<close>) and its profile
  argument (\<open>None\<close> when the call has no second argument).
\<close>

datatype done_call = Done "error option" "jsval option"

text \<open>
  The \<open>try\<close> block of the response callback. \<open>JSON_parse\<close> is the built-in
  \<open>JSON.parse\<close>: \<open>None\<close> where it throws. \<open>parse\<close> is the profile parser of ./profile,
  which returns a fresh profile object or throws.
\<close>

definition userProfile_try ::
  "(string \<Rightarrow> jsval option) \<Rightarrow> (jsval \<Rightarrow> error + jsobj) \<Rightarrow> string \<Rightarrow> error + jsval" where
  "userProfile_try JSON_parse parse body =
     (case JSON_parse body of
        None \<Rightarrow> Inl SyntaxError
      | Some json \<Rightarrow>
          (case get_prop json ''error'' of
             Inl e \<Rightarrow> Inl e
           | Inr err \<Rightarrow>
               if truthy err then
                 (case get_prop err ''error_msg'' of
                    Inl e \<Rightarrow> Inl e
                  | Inr msg \<Rightarrow>
                      (case get_prop err ''error_code'' of
                         Inl e \<Rightarrow> Inl e
                       | Inr code \<Rightarrow> Inl (VkontakteAPIError msg code)))
               else
                 (case get_prop json ''response'' of
                    Inl e \<Rightarrow> Inl e
                  | Inr response \<Rightarrow>
                      (case get_index response 0 of
                         Inl e \<Rightarrow> Inl e
                       | Inr json' \<Rightarrow>
                           (case parse json' of
                              Inl e \<Rightarrow> Inl e
                            | Inr profile \<Rightarrow>
                                Inr (JObj
                                  (AList.update ''_json'' json'
                                    (AList.update ''_raw'' (JStr body)
                                      (AList.update ''provider'' (JStr ''vkontakte'')
                                        profile)))))))))"

text \<open>
  The callback given to \<open>getProtectedResource\<close>, as the call of \<open>done\<close> it makes
  (\<open>done\<close> itself returns without throwing).
\<close>

definition userProfile_callback ::
  "(string \<Rightarrow> jsval option) \<Rightarrow> (jsval \<Rightarrow> error + jsobj) \<Rightarrow> jsval \<Rightarrow> string \<Rightarrow> done_call" where
  "userProfile_callback JSON_parse parse err body =
     (if truthy err then
        Done (Some (InternalOAuthError ''failed to fetch user profile'' err)) None
      else
        (case userProfile_try JSON_parse parse body of
           Inl e \<Rightarrow> Done (Some e) None
         | Inr profile \<Rightarrow> Done None (Some profile)))"

text \<open>
  \<open>userProfile(accessToken, done)\<close>: it throws while it builds the request, or it asks
  the OAuth2 client for the URL and calls \<open>done\<close> on the answer \<open>(err, body)\<close>. The
  result is the URL requested and the call of \<open>done\<close>.
\<close>

definition userProfile ::
  "(string \<Rightarrow> jsval option) \<Rightarrow> (jsval \<Rightarrow> error + jsobj) \<Rightarrow> (string \<Rightarrow> jsval \<Rightarrow> jsval \<times> string) \<Rightarrow>
   strategy \<Rightarrow> jsval \<Rightarrow> error + string \<times> done_call" where
  "userProfile JSON_parse parse getProtectedResource s accessToken =
     (case userProfile_url s of
        Inl e \<Rightarrow> Inl e
      | Inr url \<Rightarrow>
          (case getProtectedResource url accessToken of
             (err, body) \<Rightarrow> Inr (url, userProfile_callback JSON_parse parse err body)))"

section \<open>Token endpoint errors\<close>

text \<open>
  How \<open>parseErrorResponse(body, status)\<close> ends: it throws, it returns an error object
  of its own, or it returns the result of
  \<open>OAuth2Strategy.prototype.parseErrorResponse.call(this, body, status)\<close>, a function
  of passport-oauth2; \<open>Delegate\<close> records that call by its two arguments.
\<close>

datatype outcome = Raise error | Return error | Delegate string nat

definition parseErrorResponse :: "(string \<Rightarrow> jsval option) \<Rightarrow> string \<Rightarrow> nat \<Rightarrow> outcome" where
  "parseErrorResponse JSON_parse body status =
     (case JSON_parse body of
        None \<Rightarrow> Raise SyntaxError
      | Some json \<Rightarrow>
          (case get_prop json ''error'' of
             Inl e \<Rightarrow> Raise e
           | Inr err \<Rightarrow>
               if truthy err \<and> typeof err = ''object'' then
                 (case get_prop err ''error_msg'' of
                    Inl e \<Rightarrow> Raise e
                  | Inr msg \<Rightarrow>
                      (case get_prop err ''error_code'' of
                         Inl e \<Rightarrow> Raise e
                       | Inr code \<Rightarrow> Return (VkontakteTokenError msg code)))
               else Delegate body status))"

section \<open>The profile parser\<close>

text \<open>
  Modelled from the spec: the profile parser \<open>parse\<close> of ./profile, which strategy.js
  imports and which is not among the sources. The specification (4.4) has it map the
  user record to a profile: the numeric id passed through (the record's \<open>uid\<close>), the
  display name made of given and family name, the gender from the sex code (1 female,
  2 male, otherwise none), the photo field of the requested size as a one-element photo
  list, the city only if present. The requested size is the first argument here. A
  record that is \<open>undefined\<close> or \<open>null\<close> has no fields to read.
\<close>

definition parse :: "jsval \<Rightarrow> jsval \<Rightarrow> error + jsobj" where
  "parse photo_size json =
     (case get_prop json ''uid'' of
        Inl e \<Rightarrow> Inl e
      | Inr uid \<Rightarrow>
          (let field = (\<lambda>k. case get_prop json k of Inl e \<Rightarrow> JUndefined | Inr v \<Rightarrow> v);
               given = field ''first_name'';
               family = field ''last_name'';
               sex = field ''sex'';
               city = field ''city''
           in Inr
             ([(''id'', uid),
               (''displayName'', JStr (ToString given @ '' '' @ ToString family)),
               (''name'', JObj [(''familyName'', family), (''givenName'', given)])]
              @ (if sex = JNum 1 then [(''gender'', JStr ''female'')]
                 else if sex = JNum 2 then [(''gender'', JStr ''male'')]
                 else [])
              @ [(''photos'', JArr [JObj [(''value'', field (''photo_'' @ ToString photo_size))]])]
              @ (if city = JUndefined then [] else [(''city'', city)]))))"

section \<open>Reading the claims\<close>

text \<open>A configuration input omits a field: no options object, or no such key in it.\<close>

definition omits :: "jsobj option \<Rightarrow> string \<Rightarrow> bool" where
  "omits options k = (case options of None \<Rightarrow> True | Some kvs \<Rightarrow> map_of kvs k = None)"

text \<open>A list without its repetitions: every element once, where it first stands.\<close>

fun first_occurrences :: "'a list \<Rightarrow> 'a list" where
  "first_occurrences [] = []"
| "first_occurrences (x # xs) = x # first_occurrences (filter (\<lambda>y. y \<noteq> x) xs)"

text \<open>
  An object-shaped value passes \<open>v && typeof v == 'object'\<close>: an object or an array.
  \<open>field_of v k\<close> is \<open>v.k\<close> of such a value.
\<close>

definition object_shaped :: "jsval \<Rightarrow> bool" where
  "object_shaped v = (case v of JObj kvs \<Rightarrow> True | JArr xs \<Rightarrow> True | _ \<Rightarrow> False)"

definition field_of :: "jsval \<Rightarrow> string \<Rightarrow> jsval" where
  "field_of v k = (case v of JObj kvs \<Rightarrow> lookup kvs k | _ \<Rightarrow> JUndefined)"

section \<open>Property lists\<close>

lemma lookup_update: "lookup (AList.update k v kvs) k' = (if k' = k then v else lookup kvs k')"
  by (simp add: lookup_def update_conv)

lemma lookup_delete:
  "lookup (AList.delete k kvs) k' = (if k' = k then JUndefined else lookup kvs k')"
  by (simp add: lookup_def delete_conv)

lemma lookup_Nil: "lookup [] k = JUndefined"
  by (simp add: lookup_def)

lemma lookup_omitted: "map_of kvs k = None \<Longrightarrow> lookup kvs k = JUndefined"
  by (simp add: lookup_def)

lemma or_else_undefined: "or_else JUndefined d = d"
  by (simp add: or_else_def)

lemma array_join_JStr: "array_join sep (map JStr xs) = join sep xs"
  by (simp add: array_join_def comp_def)

section \<open>The resolved configuration\<close>

text \<open>
  C6. A configuration that omits the optional fields resolves to the documented defaults:
  the two OAuth2 endpoints and the scope separator in the options handed to the OAuth2
  client, locale \<open>en\<close>, photo size 200, API version 5.110 and the users.get URL in the
  strategy. Whatever the caller passes, \<open>passReqToCallback\<close> is \<open>true\<close> in the options
  handed on.
\<close>

theorem Strategy_defaults:
  assumes "list_all (omits options)
             [''authorizationURL'', ''tokenURL'', ''scopeSeparator'', ''lang'', ''photoSize'',
              ''apiVersion'', ''profileURL'']"
  shows "lookup (oauth2_options (Strategy options verify)) ''authorizationURL''
           = JStr ''https://oauth.vk.com/authorize''
       \<and> lookup (oauth2_options (Strategy options verify)) ''tokenURL''
           = JStr ''https://oauth.vk.com/access_token''
       \<and> lookup (oauth2_options (Strategy options verify)) ''scopeSeparator'' = JStr '',''
       \<and> lang (Strategy options verify) = JStr ''en''
       \<and> photoSize (Strategy options verify) = JNum 200
       \<and> apiVersion (Strategy options verify) = JStr ''5.110''
       \<and> profileURL (Strategy options verify) = JStr ''https://api.vk.com/method/users.get''
       \<and> (\<forall>opts v. lookup (oauth2_options (Strategy opts v)) ''passReqToCallback'' = JBool True)"
proof (cases options)
  case None
  then show ?thesis
    by (simp add: Strategy_def Let_def lookup_update lookup_delete lookup_Nil or_else_undefined)
      (simp add: lookup_def)
next
  case (Some kvs)
  with assms have om:
    "lookup kvs ''authorizationURL'' = JUndefined" "lookup kvs ''tokenURL'' = JUndefined"
    "lookup kvs ''scopeSeparator'' = JUndefined" "lookup kvs ''lang'' = JUndefined"
    "lookup kvs ''photoSize'' = JUndefined" "lookup kvs ''apiVersion'' = JUndefined"
    "lookup kvs ''profileURL'' = JUndefined"
    by (simp_all add: omits_def lookup_omitted)
  show ?thesis
    using om Some
    by (simp add: Strategy_def Let_def lookup_update lookup_delete or_else_undefined)
qed

theorem Strategy_defaults_witness:
  "list_all (omits (Some [(''clientID'', JStr ''1''), (''clientSecret'', JStr ''s''),
                          (''callbackURL'', JStr ''https://example.net/cb''),
                          (''passReqToCallback'', JBool False)]))
     [''authorizationURL'', ''tokenURL'', ''scopeSeparator'', ''lang'', ''photoSize'',
      ''apiVersion'', ''profileURL'']
   \<and> lang (Strategy (Some [(''clientID'', JStr ''1''), (''clientSecret'', JStr ''s''),
                          (''callbackURL'', JStr ''https://example.net/cb''),
                          (''passReqToCallback'', JBool False)]) (AppFn 0 4)) = JStr ''en''
   \<and> photoSize (Strategy (Some [(''clientID'', JStr ''1''), (''clientSecret'', JStr ''s''),
                          (''callbackURL'', JStr ''https://example.net/cb''),
                          (''passReqToCallback'', JBool False)]) (AppFn 0 4)) = JNum 200
   \<and> lookup (oauth2_options
         (Strategy (Some [(''clientID'', JStr ''1''), (''clientSecret'', JStr ''s''),
                          (''callbackURL'', JStr ''https://example.net/cb''),
                          (''passReqToCallback'', JBool False)]) (AppFn 0 4)))
         ''passReqToCallback'' = JBool True"
proof -
  have h: "list_all (omits (Some [(''clientID'', JStr ''1''), (''clientSecret'', JStr ''s''),
                          (''callbackURL'', JStr ''https://example.net/cb''),
                          (''passReqToCallback'', JBool False)]))
     [''authorizationURL'', ''tokenURL'', ''scopeSeparator'', ''lang'', ''photoSize'',
      ''apiVersion'', ''profileURL'']"
    by (simp add: omits_def)
  from Strategy_defaults [OF h, of "AppFn 0 4"] h show ?thesis by blast
qed

text \<open>The strategy built without options, and the profile URL it requests.\<close>

lemma Strategy_None_state:
  "lang (Strategy None verify) = JStr ''en''"
  "photoSize (Strategy None verify) = JNum 200"
  "profileURL (Strategy None verify) = JStr ''https://api.vk.com/method/users.get''"
  "profileFields (Strategy None verify) = JArr []"
  "apiVersion (Strategy None verify) = JStr ''5.110''"
  by (simp_all add: Strategy_def Let_def lookup_update lookup_delete lookup_Nil or_else_undefined)

lemma Strategy_Some_state:
  "lang (Strategy (Some kvs) verify) = or_else (lookup kvs ''lang'') (JStr ''en'')"
  "photoSize (Strategy (Some kvs) verify) = or_else (lookup kvs ''photoSize'') (JNum 200)"
  "profileURL (Strategy (Some kvs) verify)
     = or_else (lookup kvs ''profileURL'') (JStr ''https://api.vk.com/method/users.get'')"
  "profileFields (Strategy (Some kvs) verify) = or_else (lookup kvs ''profileFields'') (JArr [])"
  "apiVersion (Strategy (Some kvs) verify) = or_else (lookup kvs ''apiVersion'') (JStr ''5.110'')"
  by (simp_all add: Strategy_def Let_def lookup_update lookup_delete)

lemma Strategy_None_fields:
  "userProfile_fields (Strategy None verify)
     = Inr (map JStr [''uid'', ''first_name'', ''last_name'', ''screen_name'', ''sex'',
                      ''photo_200''])"
  by (simp add: userProfile_fields_def required_fields_def Strategy_None_state show_int_def)

lemma Strategy_None_url:
  "userProfile_url (Strategy None verify)
     = Inr ''https://api.vk.com/method/users.get?fields=uid,first_name,last_name,screen_name,sex,photo_200&v=5.110&https=1&lang=en''"
  unfolding userProfile_url_def Strategy_None_fields
  by (simp add: Strategy_None_state array_join_JStr del: list.map)

section \<open>The callback handed to the OAuth2 client\<close>

lemma Strategy_registers: "oauth2_verify (Strategy options verify) = verify"
  by (cases options) (simp_all add: Strategy_def Let_def)

text \<open>
  C3. The callback the constructor registers with the OAuth2 client is the verify
  function it was given. For a function of the application it is therefore never a
  closure of \<open>verifyWrapper\<close>, and a call of the registered callback reaches the
  application's function with the arguments unchanged: nothing of \<open>passportVerify\<close>
  runs.
\<close>

theorem verify_registered_unwrapped:
  "oauth2_verify (Strategy options verify) = verify
   \<and> (\<forall>opts v. oauth2_verify (Strategy options (AppFn i n)) \<noteq> verifyWrapper opts v)
   \<and> (\<forall>args. invoke (oauth2_verify (Strategy options (AppFn i n))) args
                = Some (Call (AppFn i n) args))"
  by (simp add: Strategy_registers verifyWrapper_def)

text \<open>
  What \<open>passportVerify\<close> does when it is called: it merges a truthy email claim into
  the profile and calls \<open>verify\<close> by its parameter count, and it reports any other
  parameter count through \<open>this.error\<close> without calling \<open>verify\<close>.
\<close>

lemma email_claim_returns: "\<exists>email. email_claim params = Inr email"
  by (cases params) (simp_all add: email_claim_def)

lemma passportVerify_merges_email:
  assumes "get_prop params ''email'' = Inr email" and "truthy email"
  shows "passportVerify verify req accessToken refreshToken params profile verified =
           (let profile' = AList.update ''emails'' (JArr [JObj [(''value'', email)]]) profile in
             if fn_length verify = 6 then
               Call verify [Req req, Val accessToken, Val refreshToken, Val params,
                            Val (JObj profile'), Fun verified]
             else if fn_length verify = 5 then
               Call verify [Val accessToken, Val refreshToken, Val params,
                            Val (JObj profile'), Fun verified]
             else if fn_length verify = 4 then
               Call verify [Val accessToken, Val refreshToken, Val (JObj profile'), Fun verified]
             else StrategyError
                    (Error ''VKontakteStrategy: verify callback must take 4 or 5 parameters''))"
proof -
  from assms have "truthy params" by (cases params) auto
  with assms show ?thesis by (simp add: passportVerify_def email_claim_def Let_def)
qed

lemma passportVerify_keeps_profile:
  assumes "email_claim params = Inr email" and "\<not> truthy email"
  shows "passportVerify verify req accessToken refreshToken params profile verified =
           (if fn_length verify = 6 then
              Call verify [Req req, Val accessToken, Val refreshToken, Val params,
                           Val (JObj profile), Fun verified]
            else if fn_length verify = 5 then
              Call verify [Val accessToken, Val refreshToken, Val params,
                           Val (JObj profile), Fun verified]
            else if fn_length verify = 4 then
              Call verify [Val accessToken, Val refreshToken, Val (JObj profile), Fun verified]
            else StrategyError
                   (Error ''VKontakteStrategy: verify callback must take 4 or 5 parameters''))"
  using assms by (simp add: passportVerify_def Let_def)

lemma passportVerify_rejects_arity:
  assumes "fn_length verify \<noteq> 6" "fn_length verify \<noteq> 5" "fn_length verify \<noteq> 4"
  shows "passportVerify verify req accessToken refreshToken params profile verified =
           StrategyError (Error ''VKontakteStrategy: verify callback must take 4 or 5 parameters'')"
  using assms email_claim_returns [of params]
  by (auto simp: passportVerify_def Let_def)

text \<open>
  C1. The email claim of the token exchange is to reach the application's callback as
  the profile's one email entry. The comment above \<open>verifyWrapper\<close> says the supplied
  verify function is wrapped for that; the constructor registers the function unwrapped.
  For an application callback of six parameters and the parameters
  \<open>{email: 'a@b.c'}\<close>, a call of the registered callback hands the application the
  profile as it came, without \<open>emails\<close>; the closure of \<open>verifyWrapper\<close> on the same
  call hands it the profile with \<open>emails = [{value: 'a@b.c'}]\<close>.
\<close>

theorem email_claim_not_merged:
  "invoke (oauth2_verify
             (Strategy (Some [(''clientID'', JStr ''1''), (''clientSecret'', JStr ''s''),
                              (''callbackURL'', JStr ''https://example.net/cb'')]) (AppFn 0 6)))
          [Req (0::nat), Val (JStr ''token''), Val JUndefined,
           Val (JObj [(''email'', JStr ''a@b.c'')]), Val (JObj [(''id'', JNum 1)]), Fun (0::nat)]
     = Some (Call (AppFn 0 6)
          [Req 0, Val (JStr ''token''), Val JUndefined,
           Val (JObj [(''email'', JStr ''a@b.c'')]), Val (JObj [(''id'', JNum 1)]), Fun 0])
   \<and> invoke (verifyWrapper [(''clientID'', JStr ''1''), (''clientSecret'', JStr ''s''),
                              (''callbackURL'', JStr ''https://example.net/cb'')] (AppFn 0 6))
          [Req (0::nat), Val (JStr ''token''), Val JUndefined,
           Val (JObj [(''email'', JStr ''a@b.c'')]), Val (JObj [(''id'', JNum 1)]), Fun (0::nat)]
     = Some (Call (AppFn 0 6)
          [Req 0, Val (JStr ''token''), Val JUndefined,
           Val (JObj [(''email'', JStr ''a@b.c'')]),
           Val (JObj [(''id'', JNum 1), (''emails'', JArr [JObj [(''value'', JStr ''a@b.c'')]])]),
           Fun 0])"
  by (simp add: Strategy_registers verifyWrapper_def passportVerify_def email_claim_def lookup_def)

text \<open>
  C2. The application's callback is to be called by its parameter count, and a count
  other than 4, 5 or 6 is to be reported as an error without calling it. The strategy
  is built with a client id, secret and callback URL. \<open>passReqToCallback\<close> being
  forced on, the OAuth2 client calls a registered callback that does not declare six
  parameters with the five arguments \<open>(req, accessToken, refreshToken, profile,
  verified)\<close>. With the callback registered unwrapped, that call hands a four-parameter
  function (the one the constructor's comment shows) the five arguments, request
  first, where the claim has \<open>(accessToken, refreshToken, profile, verified)\<close>; and it
  calls a three-parameter function as well, where the claim has an error and no call.
  The closure of \<open>verifyWrapper\<close> declares six parameters and is called with six
  arguments: it passes the four-parameter function
  \<open>(accessToken, refreshToken, profile, verified)\<close> and reports the error for the
  three-parameter one.
\<close>

theorem arity_dispatch_not_installed:
  "invoke (oauth2_verify
             (Strategy (Some [(''clientID'', JStr ''1''), (''clientSecret'', JStr ''s''),
                              (''callbackURL'', JStr ''https://example.net/cb'')]) (AppFn 0 4)))
          [Req (0::nat), Val (JStr ''token''), Val JUndefined,
           Val (JObj [(''id'', JNum 1)]), Fun (0::nat)]
     = Some (Call (AppFn 0 4)
          [Req 0, Val (JStr ''token''), Val JUndefined, Val (JObj [(''id'', JNum 1)]), Fun 0])
   \<and> invoke (oauth2_verify
             (Strategy (Some [(''clientID'', JStr ''1''), (''clientSecret'', JStr ''s''),
                              (''callbackURL'', JStr ''https://example.net/cb'')]) (AppFn 0 4)))
          [Req (0::nat), Val (JStr ''token''), Val JUndefined,
           Val (JObj [(''id'', JNum 1)]), Fun (0::nat)]
     \<noteq> Some (Call (AppFn 0 4)
          [Val (JStr ''token''), Val JUndefined, Val (JObj [(''id'', JNum 1)]), Fun 0])
   \<and> invoke (verifyWrapper [(''clientID'', JStr ''1''), (''clientSecret'', JStr ''s''),
                              (''callbackURL'', JStr ''https://example.net/cb'')] (AppFn 0 4))
          [Req (0::nat), Val (JStr ''token''), Val JUndefined, Val (JObj []),
           Val (JObj [(''id'', JNum 1)]), Fun (0::nat)]
     = Some (Call (AppFn 0 4)
          [Val (JStr ''token''), Val JUndefined, Val (JObj [(''id'', JNum 1)]), Fun 0])
   \<and> invoke (oauth2_verify
             (Strategy (Some [(''clientID'', JStr ''1''), (''clientSecret'', JStr ''s''),
                              (''callbackURL'', JStr ''https://example.net/cb'')]) (AppFn 0 3)))
          [Req (0::nat), Val (JStr ''token''), Val JUndefined,
           Val (JObj [(''id'', JNum 1)]), Fun (0::nat)]
     = Some (Call (AppFn 0 3)
          [Req 0, Val (JStr ''token''), Val JUndefined, Val (JObj [(''id'', JNum 1)]), Fun 0])
   \<and> invoke (verifyWrapper [(''clientID'', JStr ''1''), (''clientSecret'', JStr ''s''),
                              (''callbackURL'', JStr ''https://example.net/cb'')] (AppFn 0 3))
          [Req (0::nat), Val (JStr ''token''), Val JUndefined, Val (JObj []),
           Val (JObj [(''id'', JNum 1)]), Fun (0::nat)]
     = Some (StrategyError
               (Error ''VKontakteStrategy: verify callback must take 4 or 5 parameters''))"
  by (simp add: Strategy_registers verifyWrapper_def passportVerify_def email_claim_def lookup_def)

section \<open>The requested fields\<close>

lemma set_first_occurrences: "set (first_occurrences xs) = set xs"
  by (induction xs rule: first_occurrences.induct) auto

lemma distinct_first_occurrences: "distinct (first_occurrences xs)"
  by (induction xs rule: first_occurrences.induct) (auto simp: set_first_occurrences)

lemma subseq_first_occurrences: "subseq (first_occurrences xs) xs"
proof (induction xs rule: first_occurrences.induct)
  case 1
  show ?case by simp
next
  case (2 x xs)
  have "subseq (filter (\<lambda>y. y \<noteq> x) xs) xs" by simp
  with 2 have "subseq (first_occurrences (filter (\<lambda>y. y \<noteq> x) xs)) xs"
    by (rule subseq_order.trans)
  then show ?case by simp
qed

text \<open>The \<open>forEach\<close> loop appends the first occurrences of what is not there yet.\<close>

lemma push_missing_eq:
  "push_missing flds fs = flds @ first_occurrences (filter (\<lambda>f. f \<notin> set flds) fs)"
proof (induction fs arbitrary: flds)
  case Nil
  show ?case by simp
next
  case (Cons f fs)
  show ?case
  proof (cases "f \<in> set flds")
    case True
    then show ?thesis by (simp add: Cons.IH)
  next
    case False
    have "filter (\<lambda>g. g \<notin> set (flds @ [f])) fs
            = filter (\<lambda>y. y \<noteq> f) (filter (\<lambda>g. g \<notin> set flds) fs)"
      by (auto intro: filter_cong)
    with False show ?thesis by (simp add: Cons.IH)
  qed
qed

lemma first_occurrences_map_JStr:
  "first_occurrences (map JStr xs) = map JStr (first_occurrences xs)"
  by (induction xs rule: first_occurrences.induct) (simp_all add: filter_map comp_def)

text \<open>
  C5. For a list \<open>fs\<close> of requested field names, the \<open>fields\<close> parameter of the
  profile request is the six required names (\<open>photo_\<close> with the configured size last)
  followed by the names of \<open>fs\<close> that are not required, each once and in the order of
  their first occurrence in \<open>fs\<close>, joined by commas; and that is the URL \<open>userProfile\<close>
  requests.
\<close>

theorem userProfile_requested_fields:
  assumes "profileFields s = JArr (map JStr fs)"
  shows "let required = [''uid'', ''first_name'', ''last_name'', ''screen_name'', ''sex'',
                         ''photo_'' @ ToString (photoSize s)];
             extra = first_occurrences (filter (\<lambda>f. f \<notin> set required) fs);
             url = ToString (profileURL s) @ ''?fields='' @ join '','' (required @ extra)
                   @ ''&v='' @ ToString (apiVersion s) @ ''&https=1''
                   @ (if truthy (lang s) then ''&lang='' @ ToString (lang s) else [])
         in userProfile_fields s = Inr (map JStr (required @ extra))
          \<and> userProfile_url s = Inr url
          \<and> (\<exists>d. userProfile JSON_parse parser getProtectedResource s accessToken = Inr (url, d))
          \<and> distinct extra \<and> set extra = set fs - set required \<and> subseq extra fs"
proof -
  define required where "required = [''uid'', ''first_name'', ''last_name'', ''screen_name'',
                         ''sex'', ''photo_'' @ ToString (photoSize s)]"
  define extra where "extra = first_occurrences (filter (\<lambda>f. f \<notin> set required) fs)"
  define url where "url = ToString (profileURL s) @ ''?fields='' @ join '','' (required @ extra)
                   @ ''&v='' @ ToString (apiVersion s) @ ''&https=1''
                   @ (if truthy (lang s) then ''&lang='' @ ToString (lang s) else [])"
  have req: "required_fields s = map JStr required"
    by (simp add: required_fields_def required_def)
  have "filter (\<lambda>f. f \<notin> set (map JStr required)) (map JStr fs)
          = map JStr (filter (\<lambda>f. f \<notin> set required) fs)"
    by (induction fs) auto
  then have flds: "userProfile_fields s = Inr (map JStr (required @ extra))"
    using assms
    by (simp add: userProfile_fields_def req push_missing_eq first_occurrences_map_JStr extra_def)
  have u: "userProfile_url s = Inr url"
    unfolding userProfile_url_def flds url_def
    by (simp add: array_join_JStr Let_def del: map_append)
  have d: "\<exists>d. userProfile JSON_parse parser getProtectedResource s accessToken = Inr (url, d)"
    by (simp add: userProfile_def u split: prod.splits)
  have "distinct extra" "set extra = set fs - set required" "subseq extra fs"
    unfolding extra_def
    by (simp add: distinct_first_occurrences,
        auto simp: set_first_occurrences,
        meson subseq_filter_left subseq_first_occurrences subseq_order.trans)
  with flds u d show ?thesis
    unfolding Let_def required_def [symmetric] extra_def [symmetric] url_def [symmetric]
    by simp
qed

theorem userProfile_requested_fields_witness:
  "profileFields (Strategy (Some [(''profileFields'',
       JArr [JStr ''city'', JStr ''sex'', JStr ''bdate'', JStr ''city''])]) (AppFn 0 4))
     = JArr (map JStr [''city'', ''sex'', ''bdate'', ''city''])
   \<and> userProfile_url (Strategy (Some [(''profileFields'',
       JArr [JStr ''city'', JStr ''sex'', JStr ''bdate'', JStr ''city''])]) (AppFn 0 4))
     = Inr ''https://api.vk.com/method/users.get?fields=uid,first_name,last_name,screen_name,sex,photo_200,city,bdate&v=5.110&https=1&lang=en''"
proof -
  let ?s = "Strategy (Some [(''profileFields'',
       JArr [JStr ''city'', JStr ''sex'', JStr ''bdate'', JStr ''city''])]) (AppFn 0 4)"
  have st: "lang ?s = JStr ''en''" "photoSize ?s = JNum 200" "apiVersion ?s = JStr ''5.110''"
    "profileURL ?s = JStr ''https://api.vk.com/method/users.get''"
    "profileFields ?s = JArr (map JStr [''city'', ''sex'', ''bdate'', ''city''])"
    by (simp_all add: Strategy_Some_state lookup_def or_else_def)
  from userProfile_requested_fields [OF st(5)] st show ?thesis
    by (simp add: Let_def show_int_def)
qed

section \<open>The profile response\<close>

text \<open>
  C7. When the request was built and answered without a transport error, and the body
  parses to an object whose \<open>error\<close> is an object, \<open>userProfile\<close> calls \<open>done\<close> once,
  with a \<open>VkontakteAPIError\<close> made of that object's \<open>error_msg\<close> and \<open>error_code\<close>
  and with no profile.
\<close>

theorem userProfile_api_error:
  assumes "userProfile_url s = Inr url"
      and "getProtectedResource url accessToken = (err, body)"
      and "\<not> truthy err"
      and "JSON_parse body = Some (JObj kvs)"
      and "lookup kvs ''error'' = JObj e"
  shows "userProfile JSON_parse parser getProtectedResource s accessToken
           = Inr (url, Done (Some (VkontakteAPIError (lookup e ''error_msg'')
                                                     (lookup e ''error_code''))) None)"
  using assms by (simp add: userProfile_def userProfile_callback_def userProfile_try_def)

theorem userProfile_api_error_witness:
  "userProfile
     (map_of [(''{\"error\":{\"error_msg\":\"Invalid token\",\"error_code\":5}}'',
               JObj [(''error'', JObj [(''error_msg'', JStr ''Invalid token''),
                                       (''error_code'', JNum 5)])])])
     (parse (JNum 200))
     (\<lambda>url token. (JNull, ''{\"error\":{\"error_msg\":\"Invalid token\",\"error_code\":5}}''))
     (Strategy None (AppFn 0 4)) (JStr ''token'')
   = Inr (''https://api.vk.com/method/users.get?fields=uid,first_name,last_name,screen_name,sex,photo_200&v=5.110&https=1&lang=en'',
          Done (Some (VkontakteAPIError (JStr ''Invalid token'') (JNum 5))) None)"
  using userProfile_api_error
      [where s = "Strategy None (AppFn 0 4)"
         and url = "''https://api.vk.com/method/users.get?fields=uid,first_name,last_name,screen_name,sex,photo_200&v=5.110&https=1&lang=en''"
         and getProtectedResource =
           "\<lambda>url token. (JNull, ''{\"error\":{\"error_msg\":\"Invalid token\",\"error_code\":5}}'')"
         and accessToken = "JStr ''token''" and err = JNull
         and body = "''{\"error\":{\"error_msg\":\"Invalid token\",\"error_code\":5}}''"
         and JSON_parse =
           "map_of [(''{\"error\":{\"error_msg\":\"Invalid token\",\"error_code\":5}}'',
               JObj [(''error'', JObj [(''error_msg'', JStr ''Invalid token''),
                                       (''error_code'', JNum 5)])])]"
         and kvs = "[(''error'', JObj [(''error_msg'', JStr ''Invalid token''),
                                       (''error_code'', JNum 5)])]"
         and e = "[(''error_msg'', JStr ''Invalid token''), (''error_code'', JNum 5)]"
         and parser = "parse (JNum 200)"]
  by (simp add: Strategy_None_url lookup_def)

text \<open>The profile parser of the specification on the user record of its example.\<close>

lemma parse_example:
  "parse (JNum 200) (JObj [(''uid'', JNum 1), (''first_name'', JStr ''A''), (''last_name'', JStr ''B''),
                           (''sex'', JNum 2), (''photo_200'', JStr ''http://x'')])
   = Inr [(''id'', JNum 1), (''displayName'', JStr ''A B''),
          (''name'', JObj [(''familyName'', JStr ''B''), (''givenName'', JStr ''A'')]),
          (''gender'', JStr ''male''),
          (''photos'', JArr [JObj [(''value'', JStr ''http://x'')]])]"
  by (simp add: parse_def lookup_def show_int_def)

text \<open>
  C4. With photo size 200 and the body parsing to
  \<open>{response: [{uid: 1, first_name: "A", last_name: "B", sex: 2, photo_200: "http://x"}]}\<close>,
  \<open>userProfile\<close> calls \<open>done\<close> with no error and a profile whose \<open>id\<close> is 1,
  \<open>displayName\<close> "A B", \<open>gender\<close> "male", \<open>photos\<close> \<open>[{value: "http://x"}]\<close> and
  \<open>provider\<close> "vkontakte". The first four come from the profile parser as the
  specification describes it, the provider from \<open>userProfile\<close>.
\<close>

theorem userProfile_example_profile:
  assumes "photoSize s = JNum 200"
      and "userProfile_url s = Inr url"
      and "getProtectedResource url accessToken = (err, body)"
      and "\<not> truthy err"
      and "JSON_parse body =
             Some (JObj [(''response'',
                          JArr [JObj [(''uid'', JNum 1), (''first_name'', JStr ''A''),
                                      (''last_name'', JStr ''B''), (''sex'', JNum 2),
                                      (''photo_200'', JStr ''http://x'')]])])"
  shows "\<exists>p. userProfile JSON_parse (parse (photoSize s)) getProtectedResource s accessToken
               = Inr (url, Done None (Some (JObj p)))
           \<and> lookup p ''id'' = JNum 1
           \<and> lookup p ''displayName'' = JStr ''A B''
           \<and> lookup p ''gender'' = JStr ''male''
           \<and> lookup p ''photos'' = JArr [JObj [(''value'', JStr ''http://x'')]]
           \<and> lookup p ''provider'' = JStr ''vkontakte''"
proof -
  let ?p = "[(''id'', JNum 1), (''displayName'', JStr ''A B''),
             (''name'', JObj [(''familyName'', JStr ''B''), (''givenName'', JStr ''A'')]),
             (''gender'', JStr ''male''),
             (''photos'', JArr [JObj [(''value'', JStr ''http://x'')]]),
             (''provider'', JStr ''vkontakte''), (''_raw'', JStr body),
             (''_json'', JObj [(''uid'', JNum 1), (''first_name'', JStr ''A''),
                              (''last_name'', JStr ''B''), (''sex'', JNum 2),
                              (''photo_200'', JStr ''http://x'')])]"
  have "userProfile_try JSON_parse (parse (JNum 200)) body = Inr (JObj ?p)"
    using assms(5) by (simp add: userProfile_try_def lookup_def parse_example)
  then have "userProfile JSON_parse (parse (photoSize s)) getProtectedResource s accessToken
               = Inr (url, Done None (Some (JObj ?p)))"
    using assms(1-4) by (simp add: userProfile_def userProfile_callback_def)
  then show ?thesis
    by (intro exI [of _ ?p]) (simp add: lookup_def)
qed

theorem userProfile_example_profile_witness:
  "\<exists>p. userProfile
     (map_of [(''{\"response\":[{\"uid\":1,\"first_name\":\"A\",\"last_name\":\"B\",\"sex\":2,\"photo_200\":\"http://x\"}]}'',
               JObj [(''response'',
                          JArr [JObj [(''uid'', JNum 1), (''first_name'', JStr ''A''),
                                      (''last_name'', JStr ''B''), (''sex'', JNum 2),
                                      (''photo_200'', JStr ''http://x'')]])])])
     (parse (photoSize (Strategy None (AppFn 0 4))))
     (\<lambda>url token. (JNull, ''{\"response\":[{\"uid\":1,\"first_name\":\"A\",\"last_name\":\"B\",\"sex\":2,\"photo_200\":\"http://x\"}]}''))
     (Strategy None (AppFn 0 4)) (JStr ''token'')
     = Inr (''https://api.vk.com/method/users.get?fields=uid,first_name,last_name,screen_name,sex,photo_200&v=5.110&https=1&lang=en'',
            Done None (Some (JObj p)))
     \<and> lookup p ''id'' = JNum 1
     \<and> lookup p ''displayName'' = JStr ''A B''
     \<and> lookup p ''gender'' = JStr ''male''
     \<and> lookup p ''photos'' = JArr [JObj [(''value'', JStr ''http://x'')]]
     \<and> lookup p ''provider'' = JStr ''vkontakte''"
  using userProfile_example_profile
      [where s = "Strategy None (AppFn 0 4)"
         and url = "''https://api.vk.com/method/users.get?fields=uid,first_name,last_name,screen_name,sex,photo_200&v=5.110&https=1&lang=en''"
         and getProtectedResource =
           "\<lambda>url token. (JNull, ''{\"response\":[{\"uid\":1,\"first_name\":\"A\",\"last_name\":\"B\",\"sex\":2,\"photo_200\":\"http://x\"}]}'')"
         and accessToken = "JStr ''token''" and err = JNull
         and body = "''{\"response\":[{\"uid\":1,\"first_name\":\"A\",\"last_name\":\"B\",\"sex\":2,\"photo_200\":\"http://x\"}]}''"
         and JSON_parse =
           "map_of [(''{\"response\":[{\"uid\":1,\"first_name\":\"A\",\"last_name\":\"B\",\"sex\":2,\"photo_200\":\"http://x\"}]}'',
               JObj [(''response'',
                          JArr [JObj [(''uid'', JNum 1), (''first_name'', JStr ''A''),
                                      (''last_name'', JStr ''B''), (''sex'', JNum 2),
                                      (''photo_200'', JStr ''http://x'')]])])]"]
  by (simp add: Strategy_None_url Strategy_None_state)

text \<open>
  The claim C9 read literally: \<open>_json\<close> is the parsed body. On the body
  of the specification's example the profile's \<open>_json\<close> is the user record, the
  first element of the response list, and not the parsed body.
\<close>

theorem json_field_is_not_parsed_body:
  "userProfile_callback
     (map_of [(''{\"response\":[{\"uid\":1,\"first_name\":\"A\",\"last_name\":\"B\",\"sex\":2,\"photo_200\":\"http://x\"}]}'',
               JObj [(''response'',
                      JArr [JObj [(''uid'', JNum 1), (''first_name'', JStr ''A''),
                                  (''last_name'', JStr ''B''), (''sex'', JNum 2),
                                  (''photo_200'', JStr ''http://x'')]])])])
     (parse (JNum 200)) JNull
     ''{\"response\":[{\"uid\":1,\"first_name\":\"A\",\"last_name\":\"B\",\"sex\":2,\"photo_200\":\"http://x\"}]}''
   = Done None (Some (JObj
       [(''id'', JNum 1), (''displayName'', JStr ''A B''),
        (''name'', JObj [(''familyName'', JStr ''B''), (''givenName'', JStr ''A'')]),
        (''gender'', JStr ''male''),
        (''photos'', JArr [JObj [(''value'', JStr ''http://x'')]]),
        (''provider'', JStr ''vkontakte''),
        (''_raw'', JStr ''{\"response\":[{\"uid\":1,\"first_name\":\"A\",\"last_name\":\"B\",\"sex\":2,\"photo_200\":\"http://x\"}]}''),
        (''_json'', JObj [(''uid'', JNum 1), (''first_name'', JStr ''A''),
                         (''last_name'', JStr ''B''), (''sex'', JNum 2),
                         (''photo_200'', JStr ''http://x'')])]))
   \<and> JObj [(''uid'', JNum 1), (''first_name'', JStr ''A''), (''last_name'', JStr ''B''),
           (''sex'', JNum 2), (''photo_200'', JStr ''http://x'')]
       \<noteq> JObj [(''response'',
                 JArr [JObj [(''uid'', JNum 1), (''first_name'', JStr ''A''),
                             (''last_name'', JStr ''B''), (''sex'', JNum 2),
                             (''photo_200'', JStr ''http://x'')]])]"
  by (simp add: userProfile_callback_def userProfile_try_def parse_example lookup_def)

text \<open>
  C9, amended. Whenever \<open>userProfile\<close> calls \<open>done\<close> with a profile and no error, for
  any profile parser, the profile's \<open>_raw\<close> is the response body as received and its
  \<open>_json\<close> is the first element of the \<open>response\<close> list of the parsed body: the user
  record that was given to the parser.
\<close>

theorem userProfile_raw_and_json:
  assumes "userProfile JSON_parse parser getProtectedResource s accessToken
             = Inr (url, Done None (Some p))"
  shows "\<exists>err body json response user.
           getProtectedResource url accessToken = (err, body)
         \<and> JSON_parse body = Some json
         \<and> get_prop json ''response'' = Inr response
         \<and> get_index response 0 = Inr user
         \<and> get_prop p ''_raw'' = Inr (JStr body)
         \<and> get_prop p ''_json'' = Inr user"
proof -
  obtain err body where g: "getProtectedResource url accessToken = (err, body)"
    by (cases "getProtectedResource url accessToken") auto
  from assms have u: "userProfile_url s = Inr url"
    by (auto simp: userProfile_def split: sum.splits prod.splits)
  with assms g have c: "userProfile_callback JSON_parse parser err body = Done None (Some p)"
    by (simp add: userProfile_def)
  then have t: "userProfile_try JSON_parse parser body = Inr p"
    by (auto simp: userProfile_callback_def split: if_splits sum.splits)
  then obtain json where j: "JSON_parse body = Some json"
    by (auto simp: userProfile_try_def split: option.splits)
  from t j obtain response where r: "get_prop json ''response'' = Inr response"
    by (auto simp: userProfile_try_def split: sum.splits if_splits)
  from t j r obtain user where i: "get_index response 0 = Inr user"
    by (auto simp: userProfile_try_def split: sum.splits if_splits)
  from t j r i obtain profile where
    p: "p = JObj (AList.update ''_json'' user
                   (AList.update ''_raw'' (JStr body)
                     (AList.update ''provider'' (JStr ''vkontakte'') profile)))"
    by (auto simp: userProfile_try_def split: sum.splits if_splits)
  have "get_prop p ''_raw'' = Inr (JStr body)" "get_prop p ''_json'' = Inr user"
    by (simp_all add: p lookup_update)
  with g j r i show ?thesis by blast
qed

theorem userProfile_raw_and_json_witness:
  "userProfile
     (map_of [(''{\"response\":[{\"uid\":1,\"first_name\":\"A\",\"last_name\":\"B\",\"sex\":2,\"photo_200\":\"http://x\"}]}'',
               JObj [(''response'',
                      JArr [JObj [(''uid'', JNum 1), (''first_name'', JStr ''A''),
                                  (''last_name'', JStr ''B''), (''sex'', JNum 2),
                                  (''photo_200'', JStr ''http://x'')]])])])
     (parse (JNum 200))
     (\<lambda>url token. (JNull, ''{\"response\":[{\"uid\":1,\"first_name\":\"A\",\"last_name\":\"B\",\"sex\":2,\"photo_200\":\"http://x\"}]}''))
     (Strategy None (AppFn 0 4)) (JStr ''token'')
   = Inr (''https://api.vk.com/method/users.get?fields=uid,first_name,last_name,screen_name,sex,photo_200&v=5.110&https=1&lang=en'',
          Done None (Some (JObj
            [(''id'', JNum 1), (''displayName'', JStr ''A B''),
             (''name'', JObj [(''familyName'', JStr ''B''), (''givenName'', JStr ''A'')]),
             (''gender'', JStr ''male''),
             (''photos'', JArr [JObj [(''value'', JStr ''http://x'')]]),
             (''provider'', JStr ''vkontakte''),
             (''_raw'', JStr ''{\"response\":[{\"uid\":1,\"first_name\":\"A\",\"last_name\":\"B\",\"sex\":2,\"photo_200\":\"http://x\"}]}''),
             (''_json'', JObj [(''uid'', JNum 1), (''first_name'', JStr ''A''),
                              (''last_name'', JStr ''B''), (''sex'', JNum 2),
                              (''photo_200'', JStr ''http://x'')])])))
   \<and> get_prop (JObj
            [(''id'', JNum 1), (''displayName'', JStr ''A B''),
             (''name'', JObj [(''familyName'', JStr ''B''), (''givenName'', JStr ''A'')]),
             (''gender'', JStr ''male''),
             (''photos'', JArr [JObj [(''value'', JStr ''http://x'')]]),
             (''provider'', JStr ''vkontakte''),
             (''_raw'', JStr ''{\"response\":[{\"uid\":1,\"first_name\":\"A\",\"last_name\":\"B\",\"sex\":2,\"photo_200\":\"http://x\"}]}''),
             (''_json'', JObj [(''uid'', JNum 1), (''first_name'', JStr ''A''),
                              (''last_name'', JStr ''B''), (''sex'', JNum 2),
                              (''photo_200'', JStr ''http://x'')])]) ''_json''
       = get_index (JArr [JObj [(''uid'', JNum 1), (''first_name'', JStr ''A''),
                                (''last_name'', JStr ''B''), (''sex'', JNum 2),
                                (''photo_200'', JStr ''http://x'')]]) 0"
proof -
  let ?body = "''{\"response\":[{\"uid\":1,\"first_name\":\"A\",\"last_name\":\"B\",\"sex\":2,\"photo_200\":\"http://x\"}]}''"
  let ?user = "JObj [(''uid'', JNum 1), (''first_name'', JStr ''A''), (''last_name'', JStr ''B''),
                     (''sex'', JNum 2), (''photo_200'', JStr ''http://x'')]"
  let ?J = "map_of [(?body, JObj [(''response'', JArr [?user])])]"
  let ?url = "''https://api.vk.com/method/users.get?fields=uid,first_name,last_name,screen_name,sex,photo_200&v=5.110&https=1&lang=en''"
  let ?p = "JObj [(''id'', JNum 1), (''displayName'', JStr ''A B''),
        (''name'', JObj [(''familyName'', JStr ''B''), (''givenName'', JStr ''A'')]),
        (''gender'', JStr ''male''),
        (''photos'', JArr [JObj [(''value'', JStr ''http://x'')]]),
        (''provider'', JStr ''vkontakte''),
        (''_raw'', JStr ?body),
        (''_json'', ?user)]"
  have h: "userProfile ?J (parse (JNum 200)) (\<lambda>url token. (JNull, ?body))
             (Strategy None (AppFn 0 4)) (JStr ''token'')
           = Inr (?url, Done None (Some ?p))"
    by (simp add: userProfile_def Strategy_None_url userProfile_callback_def userProfile_try_def
        parse_example lookup_def)
  from userProfile_raw_and_json [OF h]
  have "get_prop ?p ''_json'' = get_index (JArr [?user]) 0"
    by (auto simp: lookup_def)
  with h show ?thesis by simp
qed

section \<open>Bodies that are not JSON, and token endpoint errors\<close>

text \<open>
  C10. On a body that \<open>JSON.parse\<close> rejects, \<open>parseErrorResponse\<close> throws the
  SyntaxError: it neither returns an error nor delegates. The response callback of
  \<open>userProfile\<close> catches the same exception and hands it to \<open>done\<close>.
\<close>

theorem invalid_json_body:
  assumes "JSON_parse body = None"
      and "\<not> truthy err"
  shows "parseErrorResponse JSON_parse body status = Raise SyntaxError
       \<and> userProfile_callback JSON_parse parser err body = Done (Some SyntaxError) None"
  using assms
  by (simp add: parseErrorResponse_def userProfile_callback_def userProfile_try_def)

theorem invalid_json_body_witness:
  "parseErrorResponse (map_of []) ''<html>502 Bad Gateway</html>'' 502 = Raise SyntaxError
   \<and> userProfile_callback (map_of []) (parse (JNum 200)) JNull ''<html>502 Bad Gateway</html>''
       = Done (Some SyntaxError) None"
  using invalid_json_body [where JSON_parse = "map_of []" and err = JNull
      and body = "''<html>502 Bad Gateway</html>''" and status = 502 and parser = "parse (JNum 200)"]
  by simp

text \<open>
  The claim C8 read literally: every body without an object-shaped \<open>error\<close> is delegated.
  The body \<open>null\<close> is valid JSON and has no \<open>error\<close> field; reading \<open>json.error\<close> of
  \<open>null\<close> throws a TypeError, and nothing is delegated.
\<close>

theorem parseErrorResponse_null_body:
  "parseErrorResponse (map_of [(''null'', JNull)]) ''null'' 400 = Raise TypeError
   \<and> parseErrorResponse (map_of [(''null'', JNull)]) ''null'' 400 \<noteq> Delegate ''null'' 400"
  by (simp add: parseErrorResponse_def)

text \<open>
  C8, amended. For a body that parses to a value other than \<open>null\<close>:
  if its \<open>error\<close> is object-shaped, \<open>parseErrorResponse\<close> returns a
  \<open>VkontakteTokenError\<close> made of that object's \<open>error_msg\<close> and \<open>error_code\<close>;
  otherwise it returns the default handler's result for the same body and status. A
  token error is never an API error: the two are different classes.
\<close>

theorem parseErrorResponse_cases:
  assumes "JSON_parse body = Some json"
      and "json \<noteq> JNull" and "json \<noteq> JUndefined"
  shows "(\<exists>err. get_prop json ''error'' = Inr err
           \<and> parseErrorResponse JSON_parse body status =
               (if object_shaped err
                then Return (VkontakteTokenError (field_of err ''error_msg'')
                                                 (field_of err ''error_code''))
                else Delegate body status))
       \<and> (\<forall>msg code m c. VkontakteTokenError msg code \<noteq> VkontakteAPIError m c)"
proof -
  obtain err where e: "get_prop json ''error'' = Inr err"
    using assms(2,3) by (cases json) simp_all
  have "parseErrorResponse JSON_parse body status =
               (if object_shaped err
                then Return (VkontakteTokenError (field_of err ''error_msg'')
                                                 (field_of err ''error_code''))
                else Delegate body status)"
    using assms(1) e
    by (cases err) (simp_all add: parseErrorResponse_def object_shaped_def field_of_def)
  with e show ?thesis by simp
qed

theorem parseErrorResponse_cases_witness:
  "parseErrorResponse
     (map_of [(''{\"error\":{\"error_msg\":\"invalid_grant\",\"error_code\":100}}'',
               JObj [(''error'', JObj [(''error_msg'', JStr ''invalid_grant''),
                                       (''error_code'', JNum 100)])]),
              (''{\"error\":\"invalid_grant\"}'', JObj [(''error'', JStr ''invalid_grant'')])])
     ''{\"error\":{\"error_msg\":\"invalid_grant\",\"error_code\":100}}'' 401
     = Return (VkontakteTokenError (JStr ''invalid_grant'') (JNum 100))
   \<and> parseErrorResponse
     (map_of [(''{\"error\":{\"error_msg\":\"invalid_grant\",\"error_code\":100}}'',
               JObj [(''error'', JObj [(''error_msg'', JStr ''invalid_grant''),
                                       (''error_code'', JNum 100)])]),
              (''{\"error\":\"invalid_grant\"}'', JObj [(''error'', JStr ''invalid_grant'')])])
     ''{\"error\":\"invalid_grant\"}'' 400
     = Delegate ''{\"error\":\"invalid_grant\"}'' 400"
proof -
  let ?J = "map_of [(''{\"error\":{\"error_msg\":\"invalid_grant\",\"error_code\":100}}'',
               JObj [(''error'', JObj [(''error_msg'', JStr ''invalid_grant''),
                                       (''error_code'', JNum 100)])]),
              (''{\"error\":\"invalid_grant\"}'', JObj [(''error'', JStr ''invalid_grant'')])]"
  from parseErrorResponse_cases
         [where JSON_parse = ?J and status = 401
            and body = "''{\"error\":{\"error_msg\":\"invalid_grant\",\"error_code\":100}}''"
            and json = "JObj [(''error'', JObj [(''error_msg'', JStr ''invalid_grant''),
                                                (''error_code'', JNum 100)])]"]
       parseErrorResponse_cases
         [where JSON_parse = ?J and status = 400
            and body = "''{\"error\":\"invalid_grant\"}''"
            and json = "JObj [(''error'', JStr ''invalid_grant'')]"]
  show ?thesis
    by (simp add: lookup_def object_shaped_def field_of_def)
qed

end
